theory Spec2Isabelle
  imports Main "HOL-Library.Char_ord" "HOL-Library.List_Lexorder"
begin

section \<open>JavaScript strings and arrays\<close>

text \<open>
  A JavaScript string is modelled as a \<^typ>\<open>string\<close> (a list of characters), an array of
  strings as a list. The order on strings is the lexicographic order of the character
  codes (\<open>Char_ord\<close>, \<open>List_Lexorder\<close>), which is the order \<^verbatim>\<open>Array.prototype.sort()\<close>
  uses without a comparator; \<^const>\<open>sort\<close> is that call.

  \<^verbatim>\<open>s.split(sep)\<close> with a one-character separator never returns the empty array: the
  empty string splits into one empty piece.
\<close>

fun split :: "char \<Rightarrow> string \<Rightarrow> string list" where
  "split sep [] = [[]]"
| "split sep (c # cs) =
     (if c = sep then [] # split sep cs
      else (c # hd (split sep cs)) # tl (split sep cs))"

text \<open>\<^verbatim>\<open>xs.join(sep)\<close>: the empty array joins to the empty string.\<close>

fun join :: "char \<Rightarrow> string list \<Rightarrow> string" where
  "join sep [] = []"
| "join sep [x] = x"
| "join sep (x # y # ys) = x @ sep # join sep (y # ys)"

text \<open>
  \<^verbatim>\<open>s.trim()\<close> removes white space at both ends; the ASCII white space characters are
  space, tab, line feed, vertical tab, form feed and carriage return. The strings of the
  model are ASCII: the white space beyond ASCII that \<^verbatim>\<open>trim\<close> strips as well (the
  no-break space and the other Unicode spaces) is not modelled.
\<close>

definition isWhiteSpace :: "char \<Rightarrow> bool" where
  "isWhiteSpace c \<longleftrightarrow> c \<in> set [CHR '' '', CHR 0x09, CHR 0x0A, CHR 0x0B, CHR 0x0C, CHR 0x0D]"

definition trim :: "string \<Rightarrow> string" where
  "trim s = rev (dropWhile isWhiteSpace (rev (dropWhile isWhiteSpace s)))"

text \<open>A string that \<^verbatim>\<open>trim\<close> leaves as it is has no white space at either end.\<close>

definition trimmed :: "string \<Rightarrow> bool" where
  "trimmed s \<longleftrightarrow> s = [] \<or> (\<not> isWhiteSpace (hd s) \<and> \<not> isWhiteSpace (last s))"

text \<open>\<^verbatim>\<open>s.toLowerCase()\<close> on ASCII letters; every other character is kept.\<close>

definition toLowerChar :: "char \<Rightarrow> char" where
  "toLowerChar c =
     (case map_of (zip ''ABCDEFGHIJKLMNOPQRSTUVWXYZ'' ''abcdefghijklmnopqrstuvwxyz'') c of
        Some l \<Rightarrow> l
      | None \<Rightarrow> c)"

definition toLowerCase :: "string \<Rightarrow> string" where
  "toLowerCase s = map toLowerChar s"

text \<open>
  \<^verbatim>\<open>xs.reduce((a, b) => a.concat(b))\<close> has no initial value: on the empty array it
  throws a \<^verbatim>\<open>TypeError\<close>.
\<close>

datatype err = TypeError | Failure string

fun reduce_concat :: "'a list list \<Rightarrow> err + 'a list" where
  "reduce_concat [] = Inl TypeError"
| "reduce_concat (a # bs) = Inr (foldl (@) a bs)"

subsection \<open>The helpers of \<^verbatim>\<open>../util\<close> and \<^verbatim>\<open>../server\<close>\<close>

text \<open>
  Modelled from the spec: \<^verbatim>\<open>uniqueFilter\<close> of \<^verbatim>\<open>../util\<close> is not among the sources.
  The spec says of its use in \<^verbatim>\<open>enableLocal\<close>: "de-duplicate (first occurrence wins)".
  The predicate it returns remembers the values it has seen; \<open>seen\<close> is that memory, and
  \<open>uniqueFilterFrom seen xs\<close> is \<^verbatim>\<open>xs.filter(uniqueFilter())\<close> once \<open>seen\<close> has been seen.
\<close>

fun uniqueFilterFrom :: "'a list \<Rightarrow> 'a list \<Rightarrow> 'a list" where
  "uniqueFilterFrom seen [] = []"
| "uniqueFilterFrom seen (x # xs) =
     (if x \<in> set seen then uniqueFilterFrom seen xs
      else x # uniqueFilterFrom (x # seen) xs)"

definition uniqueFilter :: "'a list \<Rightarrow> 'a list" where
  "uniqueFilter xs = uniqueFilterFrom [] xs"

text \<open>
  Modelled from the spec: \<^verbatim>\<open>unique\<close> of \<^verbatim>\<open>../util\<close> is not among the sources. The
  spec says "de-duplicate"; the first occurrence of a value is the one kept.
\<close>

definition unique :: "'a list \<Rightarrow> 'a list" where
  "unique xs = uniqueFilterFrom [] xs"

text \<open>
  Modelled from the spec: \<^verbatim>\<open>normalizeLocal\<close> of \<^verbatim>\<open>../server\<close> is not among the
  sources. The spec: it "lower-cases, trims, and canonicalizes a comma-separated locale
  list's formatting (no reordering of meaning, only of whitespace/case)". Each entry of
  the comma-separated list is trimmed and lower-cased, and the entries are joined again
  in their order.
\<close>

definition normalizeLocal :: "string \<Rightarrow> string" where
  "normalizeLocal s = join CHR '','' (map (\<lambda>a. toLowerCase (trim a)) (split CHR '','' s))"

section \<open>The scoped configuration (\<^verbatim>\<open>./config\<close>)\<close>

text \<open>
  Modelled from the spec: \<^verbatim>\<open>./config\<close> is not among the sources. Its types and
  functions follow sections 3, 4.1, 4.2, 6 and 7 of the spec.

  A target is a bare scope tag, or the folder tag with the resource it is resolved
  against; the resource may be missing.
\<close>

datatype target = Global | Workspace | WorkspaceFolder "string option"

text \<open>The scopes, in the order of precedence \<open>Default < User < Workspace < Folder\<close>.\<close>

datatype scope = ScopeDefault | ScopeUser | ScopeWorkspace | ScopeFolder

type_synonym inspectScope = "scope \<times> string option"

definition isGlobalTarget :: "target \<Rightarrow> bool" where
  "isGlobalTarget t = (case t of Global \<Rightarrow> True | _ \<Rightarrow> False)"

definition isFolderLevelTarget :: "target \<Rightarrow> bool" where
  "isFolderLevelTarget t = (case t of WorkspaceFolder _ \<Rightarrow> True | _ \<Rightarrow> False)"

definition isConfigTargetWithResource :: "target \<Rightarrow> bool" where
  "isConfigTargetWithResource t = (case t of WorkspaceFolder (Some _) \<Rightarrow> True | _ \<Rightarrow> False)"

text \<open>\<^verbatim>\<open>target.uri\<close>, which is \<^verbatim>\<open>undefined\<close> on a target without a resource.\<close>

definition uri :: "target \<Rightarrow> string option" where
  "uri t = (case t of WorkspaceFolder u \<Rightarrow> u | _ \<Rightarrow> None)"

text \<open>
  A folder target maps to the folder scope of its resource; the folder tag without a
  resource behaves as the workspace (section 8 of the spec, "Scope fallback").
\<close>

fun configTargetToScope :: "target \<Rightarrow> inspectScope" where
  "configTargetToScope Global = (ScopeUser, None)"
| "configTargetToScope Workspace = (ScopeWorkspace, None)"
| "configTargetToScope (WorkspaceFolder (Some u)) = (ScopeFolder, Some u)"
| "configTargetToScope (WorkspaceFolder None) = (ScopeWorkspace, None)"

text \<open>
  \<open>Inspect<T>\<close>: what is stored for one key at each scope, read for one resource. No
  merging has occurred in it.
\<close>

record 'a inspect =
  defaultValue :: "'a option"
  globalValue :: "'a option"
  workspaceValue :: "'a option"
  workspaceFolderValue :: "'a option"

text \<open>
  What the configuration store holds for one key: a value for each of the three broad
  scopes, and one for the folder of each resource. \<open>None\<close> is \<^verbatim>\<open>undefined\<close>.
\<close>

record 'a slots =
  defaultSlot :: "'a option"
  globalSlot :: "'a option"
  workspaceSlot :: "'a option"
  folderSlot :: "string \<Rightarrow> 'a option"

definition inspectSettingFromVSConfig :: "'a slots \<Rightarrow> string option \<Rightarrow> 'a inspect" where
  "inspectSettingFromVSConfig s resource =
     \<lparr> defaultValue = defaultSlot s,
       globalValue = globalSlot s,
       workspaceValue = workspaceSlot s,
       workspaceFolderValue = (case resource of None \<Rightarrow> None | Some u \<Rightarrow> folderSlot s u) \<rparr>"

fun scopeValue :: "'a inspect \<Rightarrow> scope \<Rightarrow> 'a option" where
  "scopeValue ins ScopeDefault = defaultValue ins"
| "scopeValue ins ScopeUser = globalValue ins"
| "scopeValue ins ScopeWorkspace = workspaceValue ins"
| "scopeValue ins ScopeFolder = workspaceFolderValue ins"

text \<open>The scopes an effective read walks through, from the requested one down.\<close>

fun scopesDownFrom :: "scope \<Rightarrow> scope list" where
  "scopesDownFrom ScopeDefault = [ScopeDefault]"
| "scopesDownFrom ScopeUser = [ScopeUser, ScopeDefault]"
| "scopesDownFrom ScopeWorkspace = [ScopeWorkspace, ScopeUser, ScopeDefault]"
| "scopesDownFrom ScopeFolder = [ScopeFolder, ScopeWorkspace, ScopeUser, ScopeDefault]"

fun firstDefined :: "'a option list \<Rightarrow> 'a option" where
  "firstDefined [] = None"
| "firstDefined (None # vs) = firstDefined vs"
| "firstDefined (Some v # vs) = Some v"

text \<open>
  The effective read: "First scope (walking from \<open>scope\<close> down to \<open>Default\<close>) with a
  defined value wins", never a value of a narrower scope.
\<close>

definition getScopedSettingFromVSConfig :: "'a slots \<Rightarrow> inspectScope \<Rightarrow> 'a option" where
  "getScopedSettingFromVSConfig s sc =
     (let ins = inspectSettingFromVSConfig s (snd sc)
      in firstDefined (map (scopeValue ins) (scopesDownFrom (fst sc))))"

text \<open>The exact read: "the raw value stored exactly at \<open>scope\<close> (no inheritance)".\<close>

definition inspectScopedSettingFromVSConfig :: "'a slots \<Rightarrow> inspectScope \<Rightarrow> 'a option" where
  "inspectScopedSettingFromVSConfig s sc =
     scopeValue (inspectSettingFromVSConfig s (snd sc)) (fst sc)"

text \<open>
  The keys of \<open>CSpellUserSettings\<close> that \<^verbatim>\<open>settings.ts\<close> reads and writes, each with
  the type of its values.
\<close>

record vsconfig =
  enabled :: "bool slots"
  enabledLanguageIds :: "string list slots"
  words :: "string list slots"
  userWords :: "string list slots"
  language :: "string slots"

text \<open>A section together with the value to store in it; \<open>None\<close> clears the section.\<close>

datatype setting =
    Enabled "bool option"
  | EnabledLanguageIds "string list option"
  | Words "string list option"
  | UserWords "string list option"
  | Language "string option"

fun sectionName :: "setting \<Rightarrow> string" where
  "sectionName (Enabled _) = ''enabled''"
| "sectionName (EnabledLanguageIds _) = ''enabledLanguageIds''"
| "sectionName (Words _) = ''words''"
| "sectionName (UserWords _) = ''userWords''"
| "sectionName (Language _) = ''language''"

text \<open>
  What \<open>update(key, value, target, resource)\<close> of the configuration store does to one key:
  the value lands in the slot of the target's scope; a folder target without a resource
  "falls back to the next-broader valid scope" (section 7 of the spec).
\<close>

fun updateSlots :: "'a option \<Rightarrow> target \<Rightarrow> 'a slots \<Rightarrow> 'a slots" where
  "updateSlots v Global s = s\<lparr>globalSlot := v\<rparr>"
| "updateSlots v Workspace s = s\<lparr>workspaceSlot := v\<rparr>"
| "updateSlots v (WorkspaceFolder (Some u)) s = s\<lparr>folderSlot := (folderSlot s)(u := v)\<rparr>"
| "updateSlots v (WorkspaceFolder None) s = s\<lparr>workspaceSlot := v\<rparr>"

fun configUpdate :: "setting \<Rightarrow> target \<Rightarrow> vsconfig \<Rightarrow> vsconfig" where
  "configUpdate (Enabled v) t c = c\<lparr>enabled := updateSlots v t (enabled c)\<rparr>"
| "configUpdate (EnabledLanguageIds v) t c =
     c\<lparr>enabledLanguageIds := updateSlots v t (enabledLanguageIds c)\<rparr>"
| "configUpdate (Words v) t c = c\<lparr>words := updateSlots v t (words c)\<rparr>"
| "configUpdate (UserWords v) t c = c\<lparr>userWords := updateSlots v t (userWords c)\<rparr>"
| "configUpdate (Language v) t c = c\<lparr>language := updateSlots v t (language c)\<rparr>"

section \<open>Promises and the host\<close>

text \<open>
  What a call asks of the host: an update of the configuration store, a probe of the file
  system, and the two writes to a settings file of \<^verbatim>\<open>./CSpellSettings\<close>.
\<close>

datatype effect =
    ConfigUpdate setting target
  | PathExists string
  | WriteAddLanguageIds string "string list" bool
  | RemoveLanguageIds string "string list"

text \<open>
  A promise is modelled by how it settles, \<open>Inl\<close> a rejection and \<open>Inr\<close> the value it
  resolves with, and by the requests to the host that are complete when it settles.
\<close>

datatype 'a promise = Promise (awaited: "effect list") (outcome: "err + 'a")

definition resolve :: "'a \<Rightarrow> 'a promise" where
  "resolve v = Promise [] (Inr v)"

text \<open>
  What a callback of \<^verbatim>\<open>then\<close> does: it returns a value, returns a promise (which the
  promise of \<^verbatim>\<open>then\<close> then follows), or throws.
\<close>

datatype 'a completion = Return 'a | Await "'a promise" | Throw err

fun settle :: "effect list \<Rightarrow> 'a completion \<Rightarrow> 'a promise" where
  "settle es (Return v) = Promise es (Inr v)"
| "settle es (Await p) = Promise (es @ awaited p) (outcome p)"
| "settle es (Throw e) = Promise es (Inl e)"

text \<open>
  \<^verbatim>\<open>p.then(f)\<close> where the callback may also start promises that it neither returns nor
  chains: they are the second component. A rejected \<open>p\<close> skips the callback.
\<close>

fun then_starting ::
  "'a promise \<Rightarrow> ('a \<Rightarrow> 'b completion \<times> unit promise list) \<Rightarrow> 'b promise \<times> unit promise list"
where
  "then_starting (Promise es (Inl e)) f = (Promise es (Inl e), [])"
| "then_starting (Promise es (Inr v)) f = (settle es (fst (f v)), snd (f v))"

definition andThen :: "'a promise \<Rightarrow> ('a \<Rightarrow> 'b completion) \<Rightarrow> 'b promise" where
  "andThen p f = fst (then_starting p (\<lambda>v. (f v, [])))"

text \<open>
  The host: the configuration store, \<^verbatim>\<open>workspace.workspaceFolders\<close> (each folder by
  its \<^verbatim>\<open>uri.fsPath\<close>; \<open>None\<close> when there is none), \<^verbatim>\<open>workspace.getWorkspaceFolder\<close>,
  \<^verbatim>\<open>fs.pathExists\<close>, and for each request that may fail whether it does
  (\<open>None\<close>: it succeeds).
\<close>

record host =
  config :: vsconfig
  workspaceFolders :: "string list option"
  getWorkspaceFolder :: "string \<Rightarrow> string option"
  pathExists :: "string \<Rightarrow> bool"
  updateFailure :: "setting \<Rightarrow> target \<Rightarrow> err option"
  writeAddFailure :: "string \<Rightarrow> string list \<Rightarrow> err option"
  removeFailure :: "string \<Rightarrow> string list \<Rightarrow> err option"

definition request :: "effect \<Rightarrow> err option \<Rightarrow> unit promise" where
  "request eff failure =
     Promise [eff] (case failure of None \<Rightarrow> Inr () | Some e \<Rightarrow> Inl e)"

text \<open>
  Modelled from the spec: \<^verbatim>\<open>setSettingInVSConfig\<close> of \<^verbatim>\<open>./config\<close> is not among the
  sources. It is the scoped write: one \<open>update\<close> of the configuration store, whose failure
  is "propagated to the caller as a rejected asynchronous result".
\<close>

definition setSettingInVSConfig :: "host \<Rightarrow> setting \<Rightarrow> target \<Rightarrow> unit promise" where
  "setSettingInVSConfig h s t = request (ConfigUpdate s t) (updateFailure h s t)"

text \<open>
  Modelled from the spec: \<^verbatim>\<open>./CSpellSettings\<close> is not among the sources. Its two
  writes are requests to the host; the default file name is the first of the "candidate
  filenames probed" of section 6 of the spec.
\<close>

definition writeAddLanguageIdsToSettings ::
  "host \<Rightarrow> string \<Rightarrow> string list \<Rightarrow> bool \<Rightarrow> unit promise" where
  "writeAddLanguageIdsToSettings h filename ids create =
     request (WriteAddLanguageIds filename ids create) (writeAddFailure h filename ids)"

definition removeLanguageIdsFromSettingsAndUpdate ::
  "host \<Rightarrow> string \<Rightarrow> string list \<Rightarrow> unit promise" where
  "removeLanguageIdsFromSettingsAndUpdate h filename ids =
     request (RemoveLanguageIds filename ids) (removeFailure h filename ids)"

definition defaultFileName :: string where
  "defaultFileName = ''cspell.json''"

text \<open>
  The host once the requests that a promise awaits have been carried out: each update
  of the configuration store is in the store.
\<close>

fun applyEffect :: "effect \<Rightarrow> vsconfig \<Rightarrow> vsconfig" where
  "applyEffect (ConfigUpdate s t) c = configUpdate s t c"
| "applyEffect (PathExists f) c = c"
| "applyEffect (WriteAddLanguageIds f ids b) c = c"
| "applyEffect (RemoveLanguageIds f ids) c = c"

definition afterwards :: "host \<Rightarrow> 'a promise \<Rightarrow> host" where
  "afterwards h p = h\<lparr>config := fold applyEffect (awaited p) (config h)\<rparr>"

section \<open>\<^verbatim>\<open>settings.ts\<close>\<close>

definition baseConfigName :: string where
  "baseConfigName = defaultFileName"

definition configFileLocations :: "string list" where
  "configFileLocations =
     [baseConfigName,
      toLowerCase baseConfigName,
      ''.vscode/'' @ baseConfigName,
      ''.vscode/'' @ toLowerCase baseConfigName]"

text \<open>
  \<^verbatim>\<open>path.join(root, rel)\<close>, for a root and a relative path that need no normalising: a
  root that is not empty and does not end with a separator, as \<^verbatim>\<open>/proj\<close>. What
  \<^verbatim>\<open>path.join\<close> does beyond joining with a separator is not modelled.
\<close>

definition pathJoin :: "string \<Rightarrow> string \<Rightarrow> string" where
  "pathJoin root rel = root @ ''/'' @ rel"

definition hasWorkspaceLocation :: "host \<Rightarrow> bool" where
  "hasWorkspaceLocation h =
     (case workspaceFolders h of None \<Rightarrow> False | Some [] \<Rightarrow> False | Some (f # fs) \<Rightarrow> True)"

text \<open>
  \<open>Inl\<close> is an exception thrown by the call itself, before it returns a promise. A
  \<open>Uri\<close> is modelled by its \<^verbatim>\<open>fsPath\<close>.
\<close>

definition findSettingsFiles :: "host \<Rightarrow> string option \<Rightarrow> err + string list promise" where
  "findSettingsFiles h u =
     (case workspaceFolders h of
        None \<Rightarrow> Inr (resolve [])
      | Some wfs \<Rightarrow>
          if \<not> hasWorkspaceLocation h then Inr (resolve [])
          else
            let folders =
                  (case u of
                     Some r \<Rightarrow> (case getWorkspaceFolder h r of None \<Rightarrow> [] | Some f \<Rightarrow> [f])
                   | None \<Rightarrow> wfs)
            in case reduce_concat (map (\<lambda>root. map (pathJoin root) configFileLocations) folders) of
                 Inl e \<Rightarrow> Inl e
               | Inr possibleLocations \<Rightarrow>
                   Inr (Promise (map PathExists possibleLocations)
                          (Inr (filter (pathExists h) possibleLocations))))"

definition findExistingSettingsFileLocation ::
  "host \<Rightarrow> string option \<Rightarrow> err + string option promise" where
  "findExistingSettingsFileLocation h u =
     (case findSettingsFiles h u of
        Inl e \<Rightarrow> Inl e
      | Inr found \<Rightarrow>
          Inr (andThen (andThen (andThen found
                 (\<lambda>uris. Return uris))
                 (\<lambda>paths. Return (sort_key length paths)))
                 (\<lambda>paths. Return (case paths of [] \<Rightarrow> None | p # ps \<Rightarrow> Some p))))"

definition setEnableSpellChecking :: "host \<Rightarrow> target \<Rightarrow> bool \<Rightarrow> unit promise" where
  "setEnableSpellChecking h t b = setSettingInVSConfig h (Enabled (Some b)) t"

text \<open>\<^verbatim>\<open>v || []\<close> on an array that may be \<^verbatim>\<open>undefined\<close>: every array is truthy.\<close>

definition orNil :: "'a list option \<Rightarrow> 'a list" where
  "orNil v = (case v of None \<Rightarrow> [] | Some xs \<Rightarrow> xs)"

definition getEnabledLanguagesFromConfig :: "host \<Rightarrow> inspectScope \<Rightarrow> string list" where
  "getEnabledLanguagesFromConfig h sc =
     orNil (getScopedSettingFromVSConfig (enabledLanguageIds (config h)) sc)"

definition enableLanguageIdInConfig :: "host \<Rightarrow> target \<Rightarrow> string \<Rightarrow> string list promise" where
  "enableLanguageIdInConfig h t languageId =
     (let sc = configTargetToScope t;
          langs = sort (unique (languageId # getEnabledLanguagesFromConfig h sc))
      in andThen (setSettingInVSConfig h (EnabledLanguageIds (Some langs)) t) (\<lambda>_. Return langs))"

definition disableLanguageIdInConfig :: "host \<Rightarrow> target \<Rightarrow> string \<Rightarrow> string list promise" where
  "disableLanguageIdInConfig h t languageId =
     (let sc = configTargetToScope t;
          langs = sort (filter (\<lambda>a. a \<noteq> languageId) (getEnabledLanguagesFromConfig h sc))
      in andThen (setSettingInVSConfig h (EnabledLanguageIds (Some langs)) t) (\<lambda>_. Return langs))"

text \<open>
  \<^verbatim>\<open>settingsFilename && f(settingsFilename)\<close>: an \<^verbatim>\<open>undefined\<close> or empty file name is
  falsy, and the write is not made.
\<close>

definition whenFilename :: "string option \<Rightarrow> (string \<Rightarrow> unit promise) \<Rightarrow> unit completion" where
  "whenFilename settingsFilename f =
     (case settingsFilename of
        None \<Rightarrow> Return ()
      | Some name \<Rightarrow> if name = [] then Return () else Await (f name))"

text \<open>
  \<^verbatim>\<open>enableLanguage\<close>: the callback starts the look-up and the write to the settings
  file as a statement, and returns nothing. \<open>returned\<close> is the promise the function
  returns, \<open>started\<close> the promises left on their own.
\<close>

record call =
  returned :: "unit promise"
  started :: "unit promise list"

definition enableLanguage :: "host \<Rightarrow> target \<Rightarrow> string \<Rightarrow> call" where
  "enableLanguage h t languageId =
     (let updateFile = isFolderLevelTarget t;
          r = then_starting (enableLanguageIdInConfig h t languageId)
                (\<lambda>_. if isConfigTargetWithResource t \<and> updateFile
                      then (case findExistingSettingsFileLocation h (uri t) of
                              Inl e \<Rightarrow> (Throw e, [])
                            | Inr located \<Rightarrow>
                                (Return (),
                                 [andThen (andThen located
                                    (\<lambda>settingsFilename. whenFilename settingsFilename
                                       (\<lambda>name. writeAddLanguageIdsToSettings h name [languageId] True)))
                                    (\<lambda>_. Return ())]))
                      else (Return (), []))
      in \<lparr> returned = fst r, started = snd r \<rparr>)"

text \<open>\<^verbatim>\<open>disableLanguage\<close>: the callback returns the promise of the file update.\<close>

definition disableLanguage :: "host \<Rightarrow> target \<Rightarrow> string \<Rightarrow> call" where
  "disableLanguage h t languageId =
     (let updateFile = isFolderLevelTarget t;
          r = then_starting (disableLanguageIdInConfig h t languageId)
                (\<lambda>_. if isConfigTargetWithResource t \<and> updateFile
                      then (case findExistingSettingsFileLocation h (uri t) of
                              Inl e \<Rightarrow> (Throw e, [])
                            | Inr located \<Rightarrow>
                                (Await (andThen (andThen located
                                    (\<lambda>settingsFilename. whenFilename settingsFilename
                                       (\<lambda>name. removeLanguageIdsFromSettingsAndUpdate h name [languageId])))
                                    (\<lambda>_. Return ())),
                                 []))
                      else (Return (), []))
      in \<lparr> returned = fst r, started = snd r \<rparr>)"

text \<open>
  \<^verbatim>\<open>addWordToSettings\<close>: the section and the target are both chosen by \<open>useGlobal\<close>;
  the current list is read with the exact read.
\<close>

definition addWordToSettings :: "host \<Rightarrow> target \<Rightarrow> string \<Rightarrow> unit promise" where
  "addWordToSettings h t0 word =
     (let useGlobal = isGlobalTarget t0 \<or> \<not> hasWorkspaceLocation h;
          t = (if useGlobal then Global else t0);
          current =
            orNil (inspectScopedSettingFromVSConfig
                     ((if useGlobal then userWords else words) (config h))
                     (configTargetToScope t));
          updated = unique (sort (current @ split CHR '' '' word))
      in setSettingInVSConfig h
           (if useGlobal then UserWords (Some updated) else Words (Some updated)) t)"

text \<open>\<^verbatim>\<open>v || ''\<close> on a string that may be \<^verbatim>\<open>undefined\<close>: the empty string is falsy too.\<close>

definition orEmpty :: "string option \<Rightarrow> string" where
  "orEmpty v = (case v of None \<Rightarrow> [] | Some s \<Rightarrow> s)"

text \<open>\<^verbatim>\<open>s || undefined\<close>: the empty string is falsy.\<close>

definition orUndefined :: "string \<Rightarrow> string option" where
  "orUndefined s = (if s = [] then None else Some s)"

definition enableLocal :: "host \<Rightarrow> target \<Rightarrow> string \<Rightarrow> unit promise" where
  "enableLocal h t local =
     (let sc = configTargetToScope t;
          currentLanguage = orEmpty (getScopedSettingFromVSConfig (language (config h)) sc);
          languages =
            join CHR '',''
              (uniqueFilter (map trim (split CHR '','' currentLanguage @ split CHR '','' local)))
      in setSettingInVSConfig h (Language (Some languages)) t)"

definition disableLocal :: "host \<Rightarrow> target \<Rightarrow> string \<Rightarrow> unit promise" where
  "disableLocal h t local0 =
     (let sc = configTargetToScope t;
          local = normalizeLocal local0;
          currentLanguage = orEmpty (inspectScopedSettingFromVSConfig (language (config h)) sc);
          languages =
            orUndefined
              (join CHR '',''
                 (filter (\<lambda>lang. lang \<noteq> local) (split CHR '','' (normalizeLocal currentLanguage))))
      in setSettingInVSConfig h (Language languages) t)"

section \<open>\<^verbatim>\<open>extension.ts\<close>\<close>

text \<open>
  The commands that \<^verbatim>\<open>activate\<close> registers with a handler written in place; the other
  registrations hand over to \<^verbatim>\<open>./commands\<close>.
\<close>

definition registeredCommands :: "(string \<times> (host \<Rightarrow> unit promise)) list" where
  "registeredCommands =
     [(''cSpell.enableForWorkspace'', \<lambda>h. setEnableSpellChecking h Workspace False),
      (''cSpell.disableForWorkspace'', \<lambda>h. setEnableSpellChecking h Workspace False)]"

definition executeCommand :: "string \<Rightarrow> host \<Rightarrow> unit promise option" where
  "executeCommand name h = map_option (\<lambda>handler. handler h) (map_of registeredCommands name)"

section \<open>Reading a call's requests\<close>

text \<open>The sections of the configuration store that a list of requests writes, and where.\<close>

fun sectionsWritten :: "effect list \<Rightarrow> (string \<times> target) list" where
  "sectionsWritten [] = []"
| "sectionsWritten (ConfigUpdate s t # es) = (sectionName s, t) # sectionsWritten es"
| "sectionsWritten (e # es) = sectionsWritten es"


text \<open>
  The comma-separated list that \<open>enableLocal\<close> computes from the current value and its
  argument.
\<close>

definition joinedLocales :: "string \<Rightarrow> string \<Rightarrow> string" where
  "joinedLocales currentLanguage local =
     join CHR '',''
       (uniqueFilter (map trim (split CHR '','' currentLanguage @ split CHR '','' local)))"

section \<open>Hosts to evaluate on\<close>

definition emptySlots :: "'a slots" where
  "emptySlots =
     \<lparr> defaultSlot = None, globalSlot = None, workspaceSlot = None, folderSlot = (\<lambda>_. None) \<rparr>"

text \<open>A store in which no key has a value at any scope.\<close>

definition emptyConfig :: vsconfig where
  "emptyConfig =
     \<lparr> enabled = emptySlots, enabledLanguageIds = emptySlots, words = emptySlots,
       userWords = emptySlots, language = emptySlots \<rparr>"

text \<open>No workspace is open, and no request fails.\<close>

definition bareHost :: host where
  "bareHost =
     \<lparr> config = emptyConfig,
       workspaceFolders = None,
       getWorkspaceFolder = (\<lambda>_. None),
       pathExists = (\<lambda>_. False),
       updateFailure = (\<lambda>_ _. None),
       writeAddFailure = (\<lambda>_ _. None),
       removeFailure = (\<lambda>_ _. None) \<rparr>"

text \<open>
  One workspace folder \<^verbatim>\<open>/proj\<close> that owns \<^verbatim>\<open>/proj/a.ts\<close> and holds the settings
  file \<^verbatim>\<open>/proj/cspell.json\<close>; no request fails.
\<close>

definition projectHost :: host where
  "projectHost =
     \<lparr> config = emptyConfig,
       workspaceFolders = Some [''/proj''],
       getWorkspaceFolder = (\<lambda>r. if r = ''/proj/a.ts'' then Some ''/proj'' else None),
       pathExists = (\<lambda>p. p = ''/proj/cspell.json''),
       updateFailure = (\<lambda>_ _. None),
       writeAddFailure = (\<lambda>_ _. None),
       removeFailure = (\<lambda>_ _. None) \<rparr>"

text \<open>\<open>projectHost\<close>, where the workspace stores the language \<open>v\<close>.\<close>

definition languageHost :: "string \<Rightarrow> host" where
  "languageHost v =
     projectHost\<lparr>config := emptyConfig\<lparr>language := emptySlots\<lparr>workspaceSlot := Some v\<rparr>\<rparr>\<rparr>"

text \<open>\<open>projectHost\<close>, where the user's settings hold the word \<^verbatim>\<open>baz\<close> and the workspace's none.\<close>

definition userWordHost :: host where
  "userWordHost =
     projectHost\<lparr>config := emptyConfig\<lparr>words := emptySlots\<lparr>globalSlot := Some [''baz'']\<rparr>\<rparr>\<rparr>"

text \<open>\<open>projectHost\<close>, where every write to a settings file fails.\<close>

definition readOnlyFilesHost :: host where
  "readOnlyFilesHost =
     projectHost\<lparr>writeAddFailure := (\<lambda>_ _. Some (Failure ''EACCES'')),
                 removeFailure := (\<lambda>_ _. Some (Failure ''EACCES''))\<rparr>"

text \<open>\<open>projectHost\<close>, where the user's settings enable the languages \<open>ids\<close>.\<close>

definition languageIdsHost :: "string list \<Rightarrow> host" where
  "languageIdsHost ids =
     projectHost\<lparr>config := emptyConfig\<lparr>enabledLanguageIds := emptySlots\<lparr>globalSlot := Some ids\<rparr>\<rparr>\<rparr>"

text \<open>\<open>projectHost\<close>, where the workspace's settings hold the word \<^verbatim>\<open>baz\<close>.\<close>

definition workspaceWordHost :: host where
  "workspaceWordHost =
     projectHost\<lparr>config := emptyConfig\<lparr>words := emptySlots\<lparr>workspaceSlot := Some [''baz'']\<rparr>\<rparr>\<rparr>"

text \<open>
  \<open>projectHost\<close>, where the workspace's settings enable \<^verbatim>\<open>b\<close>, \<^verbatim>\<open>a\<close> and
  \<^verbatim>\<open>b\<close> again, and the user's settings \<^verbatim>\<open>z\<close>.
\<close>

definition duplicateIdsHost :: host where
  "duplicateIdsHost =
     projectHost\<lparr>config := emptyConfig\<lparr>enabledLanguageIds :=
       emptySlots\<lparr>globalSlot := Some [''z''], workspaceSlot := Some [''b'', ''a'', ''b'']\<rparr>\<rparr>\<rparr>"

section \<open>Strings\<close>

lemma split_not_Nil: "split sep s \<noteq> []"
  by (induction s) auto

lemma split_no_sep: "x \<in> set (split sep s) \<Longrightarrow> sep \<notin> set x"
proof (induction s arbitrary: x)
  case Nil
  then show ?case by simp
next
  case (Cons c cs)
  have ne: "split sep cs \<noteq> []" by (rule split_not_Nil)
  show ?case
  proof (cases "c = sep")
    case True
    with Cons show ?thesis by auto
  next
    case False
    from Cons.prems False have "x = c # hd (split sep cs) \<or> x \<in> set (tl (split sep cs))"
      by simp
    then show ?thesis
    proof
      assume "x = c # hd (split sep cs)"
      moreover have "sep \<notin> set (hd (split sep cs))"
        using Cons.IH ne by (simp add: hd_in_set)
      ultimately show ?thesis using False by auto
    next
      assume "x \<in> set (tl (split sep cs))"
      then have "x \<in> set (split sep cs)" by (rule list.set_sel(2)[OF ne])
      then show ?thesis by (rule Cons.IH)
    qed
  qed
qed

lemma split_no_sep_string: "sep \<notin> set x \<Longrightarrow> split sep x = [x]"
  by (induction x) auto

lemma split_append_sep:
  "sep \<notin> set x \<Longrightarrow> split sep (x @ sep # s) = x # split sep s"
  by (induction x) auto

lemma split_join:
  "xs \<noteq> [] \<Longrightarrow> \<forall>x\<in>set xs. sep \<notin> set x \<Longrightarrow> split sep (join sep xs) = xs"
proof (induction sep xs rule: join.induct)
  case (1 sep)
  then show ?case by simp
next
  case (2 sep x)
  then show ?case by (simp add: split_no_sep_string)
next
  case (3 sep x y ys)
  then show ?case by (simp add: split_append_sep)
qed

lemma join_split: "join sep (split sep s) = s"
proof (induction s)
  case Nil
  show ?case by simp
next
  case (Cons c cs)
  obtain w ws where sp: "split sep cs = w # ws"
    using split_not_Nil[of sep cs] by (cases "split sep cs") auto
  show ?case
  proof (cases "c = sep")
    case True
    with Cons sp show ?thesis by simp
  next
    case False
    with Cons sp show ?thesis by (cases ws) auto
  qed
qed

lemma trimmed_trim: "trimmed (trim s)"
proof -
  define u where "u = dropWhile isWhiteSpace s"
  define v where "v = dropWhile isWhiteSpace (rev u)"
  have t: "trim s = rev v" by (simp add: trim_def u_def v_def)
  show ?thesis
  proof (cases "v = []")
    case True
    with t show ?thesis by (simp add: trimmed_def)
  next
    case False
    then have hv: "\<not> isWhiteSpace (hd v)"
      unfolding v_def by (rule hd_dropWhile)
    have "rev u = takeWhile isWhiteSpace (rev u) @ v"
      by (simp add: v_def)
    then have "last (rev u) = last v"
      using False by (metis last_appendR)
    moreover have un: "u \<noteq> []" using False by (auto simp: v_def)
    ultimately have "last v = hd u" by (simp add: last_rev)
    moreover have "\<not> isWhiteSpace (hd u)"
      using un unfolding u_def by (rule hd_dropWhile)
    ultimately have "\<not> isWhiteSpace (last v)" by simp
    with hv False t show ?thesis
      by (simp add: trimmed_def hd_rev last_rev)
  qed
qed

lemma trim_trimmed: "trimmed s \<Longrightarrow> trim s = s"
proof (cases "s = []")
  case True
  then show ?thesis by (simp add: trim_def)
next
  case False
  assume "trimmed s"
  with False have h: "\<not> isWhiteSpace (hd s)" and l: "\<not> isWhiteSpace (last s)"
    by (simp_all add: trimmed_def)
  from False h have a: "dropWhile isWhiteSpace s = s"
    by (cases s) auto
  from False l have b: "dropWhile isWhiteSpace (rev s) = rev s"
    by (cases "rev s") (auto simp: hd_rev[symmetric])
  show ?thesis by (simp add: trim_def a b)
qed

lemma trim_trim: "trim (trim s) = trim s"
  by (rule trim_trimmed) (rule trimmed_trim)

lemma set_trim: "set (trim s) \<subseteq> set s"
proof -
  have "set (dropWhile isWhiteSpace (rev (dropWhile isWhiteSpace s)))
        \<subseteq> set (rev (dropWhile isWhiteSpace s))"
    by (rule set_dropWhileD[THEN subsetI])
  also have "\<dots> \<subseteq> set s"
    by (auto dest: set_dropWhileD)
  finally show ?thesis by (simp add: trim_def)
qed

lemma uniqueFilterFrom_set:
  "set (uniqueFilterFrom seen xs) = set xs - set seen"
  by (induction seen xs rule: uniqueFilterFrom.induct) auto

lemma uniqueFilterFrom_distinct: "distinct (uniqueFilterFrom seen xs)"
  by (induction seen xs rule: uniqueFilterFrom.induct) (auto simp: uniqueFilterFrom_set)

lemma uniqueFilterFrom_seen: "set xs \<subseteq> set seen \<Longrightarrow> uniqueFilterFrom seen xs = []"
  by (induction seen xs rule: uniqueFilterFrom.induct) auto

lemma uniqueFilterFrom_append:
  "distinct xs \<Longrightarrow> set xs \<inter> set seen = {} \<Longrightarrow>
   uniqueFilterFrom seen (xs @ ys) = xs @ uniqueFilterFrom (rev xs @ seen) ys"
proof (induction xs arbitrary: seen)
  case Nil
  show ?case by simp
next
  case (Cons x xs)
  from Cons.prems have "x \<notin> set seen" "distinct xs" "set xs \<inter> set (x # seen) = {}"
    by auto
  then show ?case using Cons.IH[of "x # seen"] by simp
qed

lemma uniqueFilter_absorb:
  assumes "distinct xs" "set ys \<subseteq> set xs"
  shows "uniqueFilter (xs @ ys) = xs"
proof -
  have "uniqueFilterFrom [] (xs @ ys) = xs @ uniqueFilterFrom (rev xs @ []) ys"
    using assms(1) by (intro uniqueFilterFrom_append) auto
  moreover have "uniqueFilterFrom (rev xs @ []) ys = []"
    using assms(2) by (intro uniqueFilterFrom_seen) auto
  ultimately show ?thesis by (simp add: uniqueFilter_def)
qed

lemma uniqueFilter_not_Nil: "xs \<noteq> [] \<Longrightarrow> uniqueFilter xs \<noteq> []"
  by (cases xs) (auto simp: uniqueFilter_def)

section \<open>The configuration store\<close>

lemma awaited_setSettingInVSConfig [simp]:
  "awaited (setSettingInVSConfig h s t) = [ConfigUpdate s t]"
  by (simp add: setSettingInVSConfig_def request_def)

lemma outcome_setSettingInVSConfig:
  "outcome (setSettingInVSConfig h s t) =
     (case updateFailure h s t of None \<Rightarrow> Inr () | Some e \<Rightarrow> Inl e)"
  by (simp add: setSettingInVSConfig_def request_def)

text \<open>A value written for a target is what the exact read of the target's scope returns.\<close>

lemma inspect_after_update:
  "inspectScopedSettingFromVSConfig (updateSlots v t s) (configTargetToScope t) = v"
  by (cases t rule: configTargetToScope.cases)
     (simp_all add: inspectScopedSettingFromVSConfig_def inspectSettingFromVSConfig_def)

text \<open>A defined value written for a target is the effective value at the target's scope.\<close>

lemma get_after_update:
  "getScopedSettingFromVSConfig (updateSlots (Some x) t s) (configTargetToScope t) = Some x"
  by (cases t rule: configTargetToScope.cases)
     (simp_all add: getScopedSettingFromVSConfig_def inspectSettingFromVSConfig_def)

lemma config_afterwards:
  "awaited p = [ConfigUpdate s t] \<Longrightarrow> config (afterwards h p) = configUpdate s t (config h)"
  by (simp add: afterwards_def)

section \<open>The workspace commands\<close>

text \<open>
  C10. The handlers of \<^verbatim>\<open>cSpell.enableForWorkspace\<close> and of
  \<^verbatim>\<open>cSpell.disableForWorkspace\<close> are both \<open>setEnableSpellChecking(Target.Workspace, false)\<close>:
  on every host each of the two commands makes one and the same request, the write of
  \<open>enabled = false\<close> for the workspace target, after which the workspace slot of
  \<open>enabled\<close> holds \<open>false\<close>.
\<close>

theorem workspace_commands_write_disabled:
  "executeCommand ''cSpell.enableForWorkspace'' h
     = Some (setEnableSpellChecking h Workspace False)
   \<and> executeCommand ''cSpell.disableForWorkspace'' h
     = Some (setEnableSpellChecking h Workspace False)
   \<and> awaited (setEnableSpellChecking h Workspace False)
     = [ConfigUpdate (Enabled (Some False)) Workspace]
   \<and> workspaceSlot (enabled (config (afterwards h (setEnableSpellChecking h Workspace False))))
     = Some False"
  by (simp add: executeCommand_def registeredCommands_def setEnableSpellChecking_def
      afterwards_def)

theorem workspace_commands_write_disabled_witness:
  "executeCommand ''cSpell.enableForWorkspace'' projectHost
     = executeCommand ''cSpell.disableForWorkspace'' projectHost
   \<and> map_option awaited (executeCommand ''cSpell.enableForWorkspace'' projectHost)
     = Some [ConfigUpdate (Enabled (Some False)) Workspace]"
  using workspace_commands_write_disabled [of projectHost] by simp

section \<open>Adding words\<close>

text \<open>
  C7. For every call \<open>addWordToSettings(target, word)\<close>: if the target given is global,
  or there is no workspace root, the one write goes to the section \<open>userWords\<close> with the
  target \<open>Global\<close>; otherwise it goes to the section \<open>words\<close> with the target given. The
  section and the target written are chosen together, by the same test.
\<close>

theorem addWordToSettings_section_follows_resolved_scope:
  "(isGlobalTarget t \<or> \<not> hasWorkspaceLocation h \<longrightarrow>
      sectionsWritten (awaited (addWordToSettings h t word)) = [(''userWords'', Global)]
      \<and> (\<exists>ws. awaited (addWordToSettings h t word) = [ConfigUpdate (UserWords (Some ws)) Global]))
   \<and> (\<not> (isGlobalTarget t \<or> \<not> hasWorkspaceLocation h) \<longrightarrow>
      sectionsWritten (awaited (addWordToSettings h t word)) = [(''words'', t)]
      \<and> (\<exists>ws. awaited (addWordToSettings h t word) = [ConfigUpdate (Words (Some ws)) t]))"
  by (simp add: addWordToSettings_def Let_def)

theorem addWordToSettings_section_follows_resolved_scope_witness:
  "\<not> hasWorkspaceLocation bareHost
   \<and> sectionsWritten (awaited (addWordToSettings bareHost Workspace ''foo''))
       = [(''userWords'', Global)]
   \<and> \<not> (isGlobalTarget Workspace \<or> \<not> hasWorkspaceLocation projectHost)
   \<and> sectionsWritten (awaited (addWordToSettings projectHost Workspace ''foo''))
       = [(''words'', Workspace)]"
  using addWordToSettings_section_follows_resolved_scope [of Workspace bareHost "''foo''"]
        addWordToSettings_section_follows_resolved_scope [of Workspace projectHost "''foo''"]
  by (simp add: hasWorkspaceLocation_def bareHost_def projectHost_def isGlobalTarget_def)

section \<open>Looking for settings files\<close>



lemma awaited_enableLanguageIdInConfig:
  "awaited (enableLanguageIdInConfig h t l) =
     [ConfigUpdate (EnabledLanguageIds (Some (sort (unique (l # getEnabledLanguagesFromConfig h (configTargetToScope t)))))) t]"
  by (simp add: enableLanguageIdInConfig_def Let_def andThen_def setSettingInVSConfig_def request_def
      split: option.splits)

lemma awaited_disableLanguageIdInConfig:
  "awaited (disableLanguageIdInConfig h t l) =
     [ConfigUpdate (EnabledLanguageIds (Some (sort (filter (\<lambda>a. a \<noteq> l) (getEnabledLanguagesFromConfig h (configTargetToScope t)))))) t]"
  by (simp add: disableLanguageIdInConfig_def Let_def andThen_def setSettingInVSConfig_def request_def
      split: option.splits)


lemma andThen_Return:
  "andThen p (\<lambda>v. Return (k v)) = Promise (awaited p) (map_sum id k (outcome p))"
proof (cases p)
  case (Promise es r)
  then show ?thesis by (cases r) (simp_all add: andThen_def)
qed




section \<open>Enabling and disabling a language\<close>

lemma findExisting_throws_iff:
  "findExistingSettingsFileLocation h u = Inl e \<longleftrightarrow> findSettingsFiles h u = Inl e"
  by (simp add: findExistingSettingsFileLocation_def split: sum.splits)

lemma findSettingsFiles_throws_host:
  "findSettingsFiles (h\<lparr>pathExists := pe, writeAddFailure := w\<rparr>) u = Inl e
   \<longleftrightarrow> findSettingsFiles h u = Inl e"
  by (simp add: findSettingsFiles_def hasWorkspaceLocation_def Let_def
      split: option.splits sum.splits list.splits)

lemma enableLanguageIdInConfig_host:
  "enableLanguageIdInConfig (h\<lparr>pathExists := pe, writeAddFailure := w\<rparr>) t l
   = enableLanguageIdInConfig h t l"
  by (simp add: enableLanguageIdInConfig_def getEnabledLanguagesFromConfig_def
      setSettingInVSConfig_def)

lemma returned_enableLanguage:
  "returned (enableLanguage h t l) =
     (case enableLanguageIdInConfig h t l of
        Promise es r \<Rightarrow>
          (case r of
             Inl e \<Rightarrow> Promise es (Inl e)
           | Inr v \<Rightarrow>
               if isConfigTargetWithResource t \<and> isFolderLevelTarget t
               then (case findSettingsFiles h (uri t) of
                       Inl e \<Rightarrow> Promise es (Inl e)
                     | Inr found \<Rightarrow> Promise es (Inr ()))
               else Promise es (Inr ())))"
  by (simp add: enableLanguage_def Let_def findExistingSettingsFileLocation_def
      split: promise.splits sum.splits)

lemma enableLanguage_ignores_files:
  "returned (enableLanguage (h\<lparr>pathExists := pe, writeAddFailure := w\<rparr>) t l)
   = returned (enableLanguage h t l)"
proof -
  let ?h = "h\<lparr>pathExists := pe, writeAddFailure := w\<rparr>"
  obtain es r where c: "enableLanguageIdInConfig h t l = Promise es r"
    by (cases "enableLanguageIdInConfig h t l")
  then have c': "enableLanguageIdInConfig ?h t l = Promise es r"
    by (simp only: enableLanguageIdInConfig_host)
  have iff: "\<And>e. findSettingsFiles ?h (uri t) = Inl e \<longleftrightarrow> findSettingsFiles h (uri t) = Inl e"
    by (rule findSettingsFiles_throws_host)
  show ?thesis
  proof (cases r)
    case (Inl e)
    then show ?thesis by (simp add: returned_enableLanguage c c')
  next
    case (Inr v)
    show ?thesis
    proof (cases "findSettingsFiles h (uri t)")
      case (Inl e)
      then have "findSettingsFiles ?h (uri t) = Inl e" by (simp only: iff)
      with Inl Inr show ?thesis by (simp add: returned_enableLanguage c c')
    next
      case found: (Inr f)
      then have "\<And>e. findSettingsFiles ?h (uri t) \<noteq> Inl e" by (simp add: iff)
      then obtain f' where "findSettingsFiles ?h (uri t) = Inr f'"
        by (cases "findSettingsFiles ?h (uri t)") auto
      with found Inr show ?thesis by (simp add: returned_enableLanguage c c')
    qed
  qed
qed

lemma located_chain:
  assumes "outcome located = Inr (Some name)" "name \<noteq> []"
  shows "andThen (andThen located (\<lambda>n. whenFilename n f)) (\<lambda>v. Return (k v))
         = Promise (awaited located @ awaited (f name)) (map_sum id k (outcome (f name)))"
proof (cases located)
  case (Promise es r)
  with assms show ?thesis
    by (cases "f name") (simp add: andThen_Return, simp add: andThen_def whenFilename_def)
qed

text \<open>
  Where the target has a resource, the look-up starts without throwing and finds a
  settings file, and the write to the configuration store succeeds: the promise that
  \<open>enableLanguage\<close> returns is resolved as soon as that write is complete, and the look-up
  and the write to the file belong to a promise left on its own, which carries the
  failure of the write if it fails.
\<close>

lemma enableLanguage_file_write_detached:
  assumes "isConfigTargetWithResource t"
    and "findExistingSettingsFileLocation h (uri t) = Inr located"
    and "outcome located = Inr (Some name)" and "name \<noteq> []"
    and "outcome (enableLanguageIdInConfig h t l) = Inr langs"
  shows "returned (enableLanguage h t l)
           = Promise (awaited (enableLanguageIdInConfig h t l)) (Inr ())
         \<and> started (enableLanguage h t l)
           = [Promise (awaited located @ [WriteAddLanguageIds name [l] True])
                (case writeAddFailure h name [l] of None \<Rightarrow> Inr () | Some e \<Rightarrow> Inl e)]"
proof -
  from assms(1) have fl: "isFolderLevelTarget t"
    by (auto simp: isConfigTargetWithResource_def isFolderLevelTarget_def split: target.splits)
  obtain es where c: "enableLanguageIdInConfig h t l = Promise es (Inr langs)"
    using assms(5) by (cases "enableLanguageIdInConfig h t l") auto
  have ch: "andThen (andThen located (\<lambda>n. whenFilename n
               (\<lambda>name. writeAddLanguageIdsToSettings h name [l] True))) (\<lambda>v. Return ())
        = Promise (awaited located @ [WriteAddLanguageIds name [l] True])
            (case writeAddFailure h name [l] of None \<Rightarrow> Inr () | Some e \<Rightarrow> Inl e)"
    using assms(3,4)
    by (simp add: located_chain writeAddLanguageIdsToSettings_def request_def
        split: option.splits)
  show ?thesis
    using assms(1,2) fl ch by (simp add: enableLanguage_def c)
qed

text \<open>
  Under the same conditions the promise that \<open>disableLanguage\<close> returns follows the update
  of the settings file, whether the update succeeds or fails: the look-up and the update
  are among the requests complete when it settles, it resolves when the update does and
  is rejected with the failure of the update, and nothing is left on its own.
\<close>

lemma disableLanguage_file_update_awaited:
  assumes "isConfigTargetWithResource t"
    and "findExistingSettingsFileLocation h (uri t) = Inr located"
    and "outcome located = Inr (Some name)" and "name \<noteq> []"
    and "outcome (disableLanguageIdInConfig h t l) = Inr langs"
  shows "returned (disableLanguage h t l)
           = Promise (awaited (disableLanguageIdInConfig h t l) @ awaited located
                        @ [RemoveLanguageIds name [l]])
               (case removeFailure h name [l] of None \<Rightarrow> Inr () | Some e \<Rightarrow> Inl e)
         \<and> started (disableLanguage h t l) = []"
proof -
  from assms(1) have fl: "isFolderLevelTarget t"
    by (auto simp: isConfigTargetWithResource_def isFolderLevelTarget_def split: target.splits)
  obtain es where c: "disableLanguageIdInConfig h t l = Promise es (Inr langs)"
    using assms(5) by (cases "disableLanguageIdInConfig h t l") auto
  have ch: "andThen (andThen located (\<lambda>n. whenFilename n
               (\<lambda>name. removeLanguageIdsFromSettingsAndUpdate h name [l]))) (\<lambda>v. Return ())
        = Promise (awaited located @ [RemoveLanguageIds name [l]])
            (case removeFailure h name [l] of None \<Rightarrow> Inr () | Some e \<Rightarrow> Inl e)"
    using assms(3,4)
    by (simp add: located_chain removeLanguageIdsFromSettingsAndUpdate_def request_def
        split: option.splits)
  show ?thesis
    using assms(1,2) fl ch by (simp add: disableLanguage_def c)
qed

lemma projectHost_located:
  "findExistingSettingsFileLocation (projectHost\<lparr>writeAddFailure := w, removeFailure := r\<rparr>)
     (Some ''/proj/a.ts'')
   = Inr (Promise [PathExists ''/proj/cspell.json'', PathExists ''/proj/cspell.json'',
                   PathExists ''/proj/.vscode/cspell.json'', PathExists ''/proj/.vscode/cspell.json'']
            (Inr (Some ''/proj/cspell.json'')))"
  by (simp add: findExistingSettingsFileLocation_def findSettingsFiles_def
      projectHost_def hasWorkspaceLocation_def configFileLocations_def baseConfigName_def
      defaultFileName_def toLowerCase_def toLowerChar_def pathJoin_def andThen_def)

text \<open>
  On \<open>readOnlyFilesHost\<close>, where a settings file is found and every write to it fails,
  \<open>enableLanguage\<close> resolves and \<open>disableLanguage\<close> is rejected with the failure.
\<close>

lemma readOnlyFilesHost_enable_resolves_disable_rejects:
  "outcome (returned (enableLanguage readOnlyFilesHost (WorkspaceFolder (Some ''/proj/a.ts'')) ''rust''))
     = Inr ()
   \<and> outcome (returned (disableLanguage readOnlyFilesHost (WorkspaceFolder (Some ''/proj/a.ts'')) ''rust''))
     = Inl (Failure ''EACCES'')"
proof -
  let ?t = "WorkspaceFolder (Some ''/proj/a.ts'')"
  let ?located = "Promise [PathExists ''/proj/cspell.json'', PathExists ''/proj/cspell.json'',
                   PathExists ''/proj/.vscode/cspell.json'', PathExists ''/proj/.vscode/cspell.json'']
            (Inr (Some ''/proj/cspell.json''))"
  have r: "isConfigTargetWithResource ?t"
    by (simp add: isConfigTargetWithResource_def)
  have l: "findExistingSettingsFileLocation readOnlyFilesHost (uri ?t) = Inr ?located"
    unfolding readOnlyFilesHost_def by (simp add: projectHost_located uri_def)
  have o: "outcome ?located = Inr (Some ''/proj/cspell.json'')" "''/proj/cspell.json'' \<noteq> []"
    by simp_all
  have c: "outcome (enableLanguageIdInConfig readOnlyFilesHost ?t ''rust'') = Inr [''rust'']"
    "outcome (disableLanguageIdInConfig readOnlyFilesHost ?t ''rust'') = Inr []"
    by (simp_all add: enableLanguageIdInConfig_def disableLanguageIdInConfig_def
        getEnabledLanguagesFromConfig_def getScopedSettingFromVSConfig_def
        inspectSettingFromVSConfig_def orNil_def unique_def andThen_Return Let_def
        outcome_setSettingInVSConfig readOnlyFilesHost_def projectHost_def emptyConfig_def
        emptySlots_def)
  show ?thesis
    using enableLanguage_file_write_detached [OF r l o c(1)]
      disableLanguage_file_update_awaited [OF r l o c(2)]
    by (simp add: readOnlyFilesHost_def)
qed

text \<open>
  C9, on the code. A workspace is open, the write to the configuration store succeeds,
  and the resource of the target is owned by no workspace folder. The look-up that the
  callback of \<open>enableLanguage\<close> starts then throws a \<^verbatim>\<open>TypeError\<close> (the \<^verbatim>\<open>reduce\<close> of
  \<open>findSettingsFiles\<close> runs on the empty array), before any promise is left on its own:
  the promise that \<open>enableLanguage\<close> returns is rejected with it once the write is
  complete, and does not resolve.
\<close>

theorem enableLanguage_rejected_by_lookup_of_unowned_resource:
  "workspaceFolders projectHost = Some [''/proj'']
   \<and> getWorkspaceFolder projectHost ''/elsewhere/b.ts'' = None
   \<and> enableLanguageIdInConfig projectHost (WorkspaceFolder (Some ''/elsewhere/b.ts'')) ''rust''
       = Promise [ConfigUpdate (EnabledLanguageIds (Some [''rust'']))
                    (WorkspaceFolder (Some ''/elsewhere/b.ts''))]
           (Inr [''rust''])
   \<and> findSettingsFiles projectHost (Some ''/elsewhere/b.ts'') = Inl TypeError
   \<and> enableLanguage projectHost (WorkspaceFolder (Some ''/elsewhere/b.ts'')) ''rust''
       = \<lparr> returned = Promise [ConfigUpdate (EnabledLanguageIds (Some [''rust'']))
                                 (WorkspaceFolder (Some ''/elsewhere/b.ts''))]
                        (Inl TypeError),
           started = [] \<rparr>"
proof -
  let ?t = "WorkspaceFolder (Some ''/elsewhere/b.ts'')"
  have c: "enableLanguageIdInConfig projectHost ?t ''rust''
           = Promise [ConfigUpdate (EnabledLanguageIds (Some [''rust''])) ?t] (Inr [''rust''])"
    by (simp add: enableLanguageIdInConfig_def Let_def andThen_def setSettingInVSConfig_def
        request_def getEnabledLanguagesFromConfig_def getScopedSettingFromVSConfig_def
        inspectSettingFromVSConfig_def orNil_def unique_def projectHost_def emptyConfig_def
        emptySlots_def)
  have f: "findSettingsFiles projectHost (Some ''/elsewhere/b.ts'') = Inl TypeError"
    by (simp add: findSettingsFiles_def hasWorkspaceLocation_def projectHost_def)
  have e: "findExistingSettingsFileLocation projectHost (uri ?t) = Inl TypeError"
    by (simp add: findExisting_throws_iff f uri_def)
  have "enableLanguage projectHost ?t ''rust''
        = \<lparr> returned = Promise [ConfigUpdate (EnabledLanguageIds (Some [''rust''])) ?t]
                         (Inl TypeError),
            started = [] \<rparr>"
    by (simp add: enableLanguage_def c e isConfigTargetWithResource_def isFolderLevelTarget_def)
  with c f show ?thesis by (simp add: projectHost_def)
qed

section \<open>The enabled language ids\<close>

lemma set_unique [simp]: "set (unique xs) = set xs"
  by (simp add: unique_def uniqueFilterFrom_set)

lemma distinct_unique [simp]: "distinct (unique xs)"
  by (simp add: unique_def uniqueFilterFrom_distinct)

lemma sorted_uniqueFilterFrom:
  "sorted xs \<Longrightarrow> sorted (uniqueFilterFrom seen xs)"
  by (induction seen xs rule: uniqueFilterFrom.induct) (auto simp: uniqueFilterFrom_set)

lemma sorted_unique: "sorted xs \<Longrightarrow> sorted (unique xs)"
  by (simp add: unique_def sorted_uniqueFilterFrom)

lemma outcome_enableLanguageIdInConfig:
  "outcome (enableLanguageIdInConfig h t l) =
     (let langs = sort (unique (l # getEnabledLanguagesFromConfig h (configTargetToScope t)))
      in case updateFailure h (EnabledLanguageIds (Some langs)) t of
           None \<Rightarrow> Inr langs | Some e \<Rightarrow> Inl e)"
  by (simp add: enableLanguageIdInConfig_def Let_def andThen_Return outcome_setSettingInVSConfig
      split: option.splits)

lemma outcome_disableLanguageIdInConfig:
  "outcome (disableLanguageIdInConfig h t l) =
     (let langs = sort (filter (\<lambda>a. a \<noteq> l) (getEnabledLanguagesFromConfig h (configTargetToScope t)))
      in case updateFailure h (EnabledLanguageIds (Some langs)) t of
           None \<Rightarrow> Inr langs | Some e \<Rightarrow> Inl e)"
  by (simp add: disableLanguageIdInConfig_def Let_def andThen_Return outcome_setSettingInVSConfig
      split: option.splits)

text \<open>
  The list that each of the two functions writes and returns, from the effective read of
  \<open>enabledLanguageIds\<close> at the target's scope.
\<close>

lemma languageId_lists_written:
  "enableLanguageIdInConfig h t languageId
     = (let langs = sort (unique (languageId #
                      orNil (getScopedSettingFromVSConfig (enabledLanguageIds (config h))
                               (configTargetToScope t))))
        in Promise [ConfigUpdate (EnabledLanguageIds (Some langs)) t]
             (case updateFailure h (EnabledLanguageIds (Some langs)) t of
                None \<Rightarrow> Inr langs | Some e \<Rightarrow> Inl e))
   \<and> disableLanguageIdInConfig h t languageId
     = (let langs = sort (filter (\<lambda>a. a \<noteq> languageId)
                      (orNil (getScopedSettingFromVSConfig (enabledLanguageIds (config h))
                                (configTargetToScope t))))
        in Promise [ConfigUpdate (EnabledLanguageIds (Some langs)) t]
             (case updateFailure h (EnabledLanguageIds (Some langs)) t of
                None \<Rightarrow> Inr langs | Some e \<Rightarrow> Inl e))"
  by (simp add: enableLanguageIdInConfig_def disableLanguageIdInConfig_def Let_def
      getEnabledLanguagesFromConfig_def andThen_Return setSettingInVSConfig_def request_def
      split: option.splits)

text \<open>
  The list that \<open>enableLanguageIdInConfig\<close> writes is sorted and without duplicates, and its
  members are \<open>id\<close> and those of the effective list. The list that
  \<open>disableLanguageIdInConfig\<close> writes is sorted, its members are those of the effective list
  other than \<open>id\<close>, and each of them occurs as often as in the effective list.
\<close>

lemma languageId_lists_sorted:
  fixes eff :: "string list"
  shows "sorted (sort (unique (languageId # eff)))
   \<and> distinct (sort (unique (languageId # eff)))
   \<and> set (sort (unique (languageId # eff))) = insert languageId (set eff)
   \<and> sorted (sort (filter (\<lambda>a. a \<noteq> languageId) eff))
   \<and> set (sort (filter (\<lambda>a. a \<noteq> languageId) eff)) = set eff - {languageId}
   \<and> (\<forall>a. count_list (sort (filter (\<lambda>a. a \<noteq> languageId) eff)) a
            = (if a = languageId then 0 else count_list eff a))"
proof -
  have "count_list (sort (filter (\<lambda>a. a \<noteq> languageId) eff)) a
        = (if a = languageId then 0 else count_list eff a)" for a :: string
  proof -
    have "count_list (sort xs) a = count_list xs a" for xs :: "string list"
      by (metis count_list_eq_length_filter filter_sort length_sort)
    moreover have "count_list (filter (\<lambda>a. a \<noteq> languageId) eff) a
                   = (if a = languageId then 0 else count_list eff a)"
      by (induction eff) auto
    ultimately show ?thesis by simp
  qed
  then show ?thesis by auto
qed

text \<open>
  The examples of the spec: enabling \<^verbatim>\<open>rust\<close> on the empty list gives \<^verbatim>\<open>["rust"]\<close>,
  disabling \<^verbatim>\<open>rust\<close> on \<^verbatim>\<open>["rust"]\<close> gives the empty list, and enabling \<^verbatim>\<open>go\<close> on
  \<^verbatim>\<open>["python","go"]\<close> gives \<^verbatim>\<open>["go","python"]\<close>.
\<close>

lemma languageId_examples:
  assumes "getScopedSettingFromVSConfig (enabledLanguageIds (config h)) (configTargetToScope t)
           = Some eff"
  shows "(eff = [] \<longrightarrow>
            awaited (enableLanguageIdInConfig h t ''rust'')
              = [ConfigUpdate (EnabledLanguageIds (Some [''rust''])) t])
       \<and> (eff = [''rust''] \<longrightarrow>
            awaited (disableLanguageIdInConfig h t ''rust'')
              = [ConfigUpdate (EnabledLanguageIds (Some [])) t])
       \<and> (eff = [''python'', ''go''] \<longrightarrow>
            awaited (enableLanguageIdInConfig h t ''go'')
              = [ConfigUpdate (EnabledLanguageIds (Some [''go'', ''python''])) t])"
  using assms
  by (simp add: awaited_enableLanguageIdInConfig awaited_disableLanguageIdInConfig
      getEnabledLanguagesFromConfig_def orNil_def unique_def)

text \<open>
  C6, on the code. The workspace's settings hold \<^verbatim>\<open>["b","a","b"]\<close>, which is the
  effective list for the workspace target (the user's settings hold \<^verbatim>\<open>["z"]\<close>).
  \<open>disableLanguageIdInConfig\<close> of \<^verbatim>\<open>c\<close> writes and returns \<^verbatim>\<open>["a","b","b"]\<close>: the list
  is sorted, and keeps the duplicate, so it is not the sorted set difference
  \<^verbatim>\<open>["a","b"]\<close>. On the same host \<open>enableLanguageIdInConfig\<close> of \<^verbatim>\<open>c\<close> writes
  \<^verbatim>\<open>["a","b","c"]\<close>, without the duplicate.
\<close>

theorem disableLanguageIdInConfig_keeps_duplicates:
  "getScopedSettingFromVSConfig (enabledLanguageIds (config duplicateIdsHost))
     (configTargetToScope Workspace) = Some [''b'', ''a'', ''b'']
   \<and> disableLanguageIdInConfig duplicateIdsHost Workspace ''c''
       = Promise [ConfigUpdate (EnabledLanguageIds (Some [''a'', ''b'', ''b''])) Workspace]
           (Inr [''a'', ''b'', ''b''])
   \<and> \<not> distinct [''a'', ''b'', ''b'']
   \<and> enableLanguageIdInConfig duplicateIdsHost Workspace ''c''
       = Promise [ConfigUpdate (EnabledLanguageIds (Some [''a'', ''b'', ''c''])) Workspace]
           (Inr [''a'', ''b'', ''c''])"
proof -
  have eff: "getScopedSettingFromVSConfig (enabledLanguageIds (config duplicateIdsHost))
               (ScopeWorkspace, None) = Some [''b'', ''a'', ''b'']"
    by (simp add: duplicateIdsHost_def getScopedSettingFromVSConfig_def
        inspectSettingFromVSConfig_def emptySlots_def)
  have ok: "updateFailure duplicateIdsHost s t = None" for s t
    by (simp add: duplicateIdsHost_def projectHost_def)
  show ?thesis
    by (simp add: languageId_lists_written eff ok orNil_def unique_def Let_def)
qed

section \<open>The word list\<close>

lemma hasWorkspaceLocation_projectHost [simp]:
  "hasWorkspaceLocation (projectHost\<lparr>config := c\<rparr>)"
  by (simp add: hasWorkspaceLocation_def projectHost_def)

text \<open>
  C2, as the claim states it: the list that \<open>addWordToSettings\<close> extends would be the
  effective one. On a host where the user's settings hold \<^verbatim>\<open>baz\<close> and the workspace's
  hold no word, the effective list of the workspace is \<^verbatim>\<open>["baz"]\<close>; adding
  \<^verbatim>\<open>foo bar\<close> for the workspace writes \<^verbatim>\<open>["bar","foo"]\<close>, without \<^verbatim>\<open>baz\<close>.
\<close>

theorem addWordToSettings_inherited_read_counterexample:
  "getScopedSettingFromVSConfig (words (config userWordHost)) (configTargetToScope Workspace)
     = Some [''baz'']
   \<and> awaited (addWordToSettings userWordHost Workspace ''foo bar'')
     = [ConfigUpdate (Words (Some [''bar'', ''foo''])) Workspace]
   \<and> awaited (addWordToSettings userWordHost Workspace ''foo bar'')
     \<noteq> [ConfigUpdate (Words (Some [''bar'', ''baz'', ''foo''])) Workspace]"
  by (simp add: addWordToSettings_def userWordHost_def isGlobalTarget_def
      getScopedSettingFromVSConfig_def inspectScopedSettingFromVSConfig_def
      inspectSettingFromVSConfig_def emptySlots_def orNil_def unique_def Let_def)

text \<open>
  C2, amended. \<open>addWordToSettings\<close> reads the word list stored exactly at the scope of the
  resolved target, with no inheritance from broader scopes (an absent list counts as
  empty), splits \<open>word\<close> on spaces, and writes one list: it is sorted and without
  duplicates, and its members are those of the stored list and the pieces of \<open>word\<close>. In
  particular, adding \<^verbatim>\<open>foo bar\<close> where \<^verbatim>\<open>["baz"]\<close> is stored at the target's scope
  writes \<^verbatim>\<open>["bar","baz","foo"]\<close>.
\<close>

theorem addWordToSettings_exact_sorted_union:
  "(isGlobalTarget t \<or> \<not> hasWorkspaceLocation h \<longrightarrow>
      (\<exists>ws. awaited (addWordToSettings h t word) = [ConfigUpdate (UserWords (Some ws)) Global]
         \<and> sorted ws \<and> distinct ws
         \<and> set ws = set (orNil (inspectScopedSettingFromVSConfig (userWords (config h))
                                   (configTargetToScope Global)))
                    \<union> set (split CHR '' '' word)))
   \<and> (\<not> (isGlobalTarget t \<or> \<not> hasWorkspaceLocation h) \<longrightarrow>
      (\<exists>ws. awaited (addWordToSettings h t word) = [ConfigUpdate (Words (Some ws)) t]
         \<and> sorted ws \<and> distinct ws
         \<and> set ws = set (orNil (inspectScopedSettingFromVSConfig (words (config h))
                                   (configTargetToScope t)))
                    \<union> set (split CHR '' '' word)))
   \<and> (\<not> (isGlobalTarget t \<or> \<not> hasWorkspaceLocation h)
       \<and> inspectScopedSettingFromVSConfig (words (config h)) (configTargetToScope t)
           = Some [''baz''] \<longrightarrow>
      awaited (addWordToSettings h t ''foo bar'')
        = [ConfigUpdate (Words (Some [''bar'', ''baz'', ''foo''])) t])"
proof (intro conjI impI)
  assume g: "isGlobalTarget t \<or> \<not> hasWorkspaceLocation h"
  let ?cur = "orNil (inspectScopedSettingFromVSConfig (userWords (config h))
                (configTargetToScope Global))"
  show "\<exists>ws. awaited (addWordToSettings h t word) = [ConfigUpdate (UserWords (Some ws)) Global]
         \<and> sorted ws \<and> distinct ws \<and> set ws = set ?cur \<union> set (split CHR '' '' word)"
    using g
    by (intro exI [of _ "unique (sort (?cur @ split CHR '' '' word))"])
       (simp add: addWordToSettings_def Let_def sorted_unique)
next
  assume g: "\<not> (isGlobalTarget t \<or> \<not> hasWorkspaceLocation h)"
  let ?cur = "orNil (inspectScopedSettingFromVSConfig (words (config h)) (configTargetToScope t))"
  show "\<exists>ws. awaited (addWordToSettings h t word) = [ConfigUpdate (Words (Some ws)) t]
         \<and> sorted ws \<and> distinct ws \<and> set ws = set ?cur \<union> set (split CHR '' '' word)"
    using g
    by (intro exI [of _ "unique (sort (?cur @ split CHR '' '' word))"])
       (simp add: addWordToSettings_def Let_def sorted_unique)
next
  assume "\<not> (isGlobalTarget t \<or> \<not> hasWorkspaceLocation h)
       \<and> inspectScopedSettingFromVSConfig (words (config h)) (configTargetToScope t)
           = Some [''baz'']"
  then show "awaited (addWordToSettings h t ''foo bar'')
        = [ConfigUpdate (Words (Some [''bar'', ''baz'', ''foo''])) t]"
    by (simp add: addWordToSettings_def Let_def orNil_def unique_def)
qed

theorem addWordToSettings_exact_sorted_union_witness:
  "\<not> (isGlobalTarget Workspace \<or> \<not> hasWorkspaceLocation workspaceWordHost)
   \<and> inspectScopedSettingFromVSConfig (words (config workspaceWordHost))
        (configTargetToScope Workspace) = Some [''baz'']
   \<and> awaited (addWordToSettings workspaceWordHost Workspace ''foo bar'')
        = [ConfigUpdate (Words (Some [''bar'', ''baz'', ''foo''])) Workspace]"
proof -
  have a: "\<not> (isGlobalTarget Workspace \<or> \<not> hasWorkspaceLocation workspaceWordHost)"
    by (simp add: isGlobalTarget_def workspaceWordHost_def)
  have b: "inspectScopedSettingFromVSConfig (words (config workspaceWordHost))
        (configTargetToScope Workspace) = Some [''baz'']"
    by (simp add: workspaceWordHost_def inspectScopedSettingFromVSConfig_def
        inspectSettingFromVSConfig_def emptySlots_def)
  show ?thesis
    using a b addWordToSettings_exact_sorted_union
      [where h = workspaceWordHost and t = Workspace and word = "''foo bar''"]
    by simp
qed

section \<open>Disabling a locale\<close>

lemma awaited_disableLocal:
  "awaited (disableLocal h t local) =
     [ConfigUpdate (Language (orUndefined (join CHR '',''
        (filter (\<lambda>lang. lang \<noteq> normalizeLocal local)
           (split CHR '','' (normalizeLocal
              (orEmpty (inspectScopedSettingFromVSConfig (language (config h))
                          (configTargetToScope t))))))))) t]"
  by (simp add: disableLocal_def Let_def)

lemma language_afterwards:
  "awaited p = [ConfigUpdate (Language v) t] \<Longrightarrow>
   inspectScopedSettingFromVSConfig (language (config (afterwards h p))) (configTargetToScope t) = v"
  by (simp add: afterwards_def inspect_after_update)

lemma languageHost_stored:
  "inspectScopedSettingFromVSConfig (language (config (languageHost v)))
     (configTargetToScope Workspace) = Some v"
  by (simp add: languageHost_def inspectScopedSettingFromVSConfig_def
      inspectSettingFromVSConfig_def emptySlots_def)

lemma normalizeLocal_en [simp]: "normalizeLocal ''en'' = ''en''"
  by (simp add: normalizeLocal_def trim_def isWhiteSpace_def toLowerCase_def toLowerChar_def)

lemma normalizeLocal_de [simp]: "normalizeLocal ''de'' = ''de''"
  by (simp add: normalizeLocal_def trim_def isWhiteSpace_def toLowerCase_def toLowerChar_def)

lemma normalizeLocal_en_fr [simp]: "normalizeLocal ''en,fr'' = ''en,fr''"
  by (simp add: normalizeLocal_def trim_def isWhiteSpace_def toLowerCase_def toLowerChar_def)

lemma normalizeLocal_EN_fr [simp]: "normalizeLocal ''EN,fr'' = ''en,fr''"
  by (simp add: normalizeLocal_def trim_def isWhiteSpace_def toLowerCase_def toLowerChar_def)

text \<open>
  C4. For every target, if removing the normalized locale from the value stored exactly
  at the target's scope leaves no entry, \<open>disableLocal\<close> writes \<^verbatim>\<open>undefined\<close>, and the
  scope then stores nothing. Whatever is stored, \<open>disableLocal\<close> does not write the empty
  string.
\<close>

theorem disableLocal_last_locale_clears_override:
  "(filter (\<lambda>lang. lang \<noteq> normalizeLocal local)
      (split CHR '','' (normalizeLocal
         (orEmpty (inspectScopedSettingFromVSConfig (language (config h))
                     (configTargetToScope t))))) = [] \<longrightarrow>
      awaited (disableLocal h t local) = [ConfigUpdate (Language None) t]
      \<and> inspectScopedSettingFromVSConfig
           (language (config (afterwards h (disableLocal h t local)))) (configTargetToScope t)
          = None)
   \<and> awaited (disableLocal h t local) \<noteq> [ConfigUpdate (Language (Some [])) t]"
proof (intro conjI impI)
  assume "filter (\<lambda>lang. lang \<noteq> normalizeLocal local)
      (split CHR '','' (normalizeLocal
         (orEmpty (inspectScopedSettingFromVSConfig (language (config h))
                     (configTargetToScope t))))) = []"
  then show w: "awaited (disableLocal h t local) = [ConfigUpdate (Language None) t]"
    by (simp add: awaited_disableLocal orUndefined_def)
  then show "inspectScopedSettingFromVSConfig
           (language (config (afterwards h (disableLocal h t local)))) (configTargetToScope t)
          = None"
    by (rule language_afterwards)
next
  show "awaited (disableLocal h t local) \<noteq> [ConfigUpdate (Language (Some [])) t]"
    by (simp add: awaited_disableLocal orUndefined_def)
qed

theorem disableLocal_last_locale_clears_override_witness:
  "inspectScopedSettingFromVSConfig (language (config (languageHost ''en'')))
     (configTargetToScope Workspace) = Some ''en''
   \<and> awaited (disableLocal (languageHost ''en'') Workspace ''en'')
       = [ConfigUpdate (Language None) Workspace]
   \<and> inspectScopedSettingFromVSConfig
        (language (config (afterwards (languageHost ''en'')
           (disableLocal (languageHost ''en'') Workspace ''en''))))
        (configTargetToScope Workspace) = None"
  using disableLocal_last_locale_clears_override
    [where h = "languageHost ''en''" and t = Workspace and local = "''en''"]
  by (simp add: languageHost_stored [simplified] orEmpty_def)

text \<open>
  C5, as the claim states it: disabling a locale that the stored value does not hold
  would leave the stored value as it is. Where the workspace stores \<^verbatim>\<open>EN,fr\<close>,
  disabling \<^verbatim>\<open>de\<close> stores \<^verbatim>\<open>en,fr\<close>.
\<close>

theorem disableLocal_absent_locale_counterexample:
  "inspectScopedSettingFromVSConfig (language (config (languageHost ''EN,fr'')))
     (configTargetToScope Workspace) = Some ''EN,fr''
   \<and> inspectScopedSettingFromVSConfig
        (language (config (afterwards (languageHost ''EN,fr'')
           (disableLocal (languageHost ''EN,fr'') Workspace ''de''))))
        (configTargetToScope Workspace) = Some ''en,fr''
   \<and> Some ''en,fr'' \<noteq> Some ''EN,fr''"
proof -
  have "awaited (disableLocal (languageHost ''EN,fr'') Workspace ''de'')
        = [ConfigUpdate (Language (Some ''en,fr'')) Workspace]"
    by (simp add: awaited_disableLocal languageHost_stored [simplified] orEmpty_def
        orUndefined_def)
  then show ?thesis
    by (simp add: language_afterwards [where t = Workspace, simplified]
        languageHost_stored [simplified])
qed

text \<open>
  C5, amended. For every target, \<open>disableLocal\<close> works on the value stored exactly at the
  target's scope, and not on the effective value: where the scope stores nothing it
  writes \<^verbatim>\<open>undefined\<close>, whatever broader scopes hold. Disabling a locale that the
  normalized stored value does not hold writes the stored value in its normalized form
  (provided that form is not empty), and the scope then stores it; so a stored value that
  is already normalized, such as \<^verbatim>\<open>en,fr\<close> when \<^verbatim>\<open>de\<close> is disabled, is unchanged.
\<close>

theorem disableLocal_absent_locale_writes_normalized:
  "(inspectScopedSettingFromVSConfig (language (config h)) (configTargetToScope t) = None \<longrightarrow>
      awaited (disableLocal h t local) = [ConfigUpdate (Language None) t])
   \<and> (inspectScopedSettingFromVSConfig (language (config h)) (configTargetToScope t) = Some v
       \<and> normalizeLocal v \<noteq> []
       \<and> normalizeLocal local \<notin> set (split CHR '','' (normalizeLocal v)) \<longrightarrow>
      awaited (disableLocal h t local) = [ConfigUpdate (Language (Some (normalizeLocal v))) t]
      \<and> inspectScopedSettingFromVSConfig
           (language (config (afterwards h (disableLocal h t local)))) (configTargetToScope t)
          = Some (normalizeLocal v))"
proof (intro conjI impI)
  assume "inspectScopedSettingFromVSConfig (language (config h)) (configTargetToScope t) = None"
  then show "awaited (disableLocal h t local) = [ConfigUpdate (Language None) t]"
    by (simp add: awaited_disableLocal orEmpty_def orUndefined_def normalizeLocal_def
        trim_def toLowerCase_def)
next
  assume a: "inspectScopedSettingFromVSConfig (language (config h)) (configTargetToScope t) = Some v
       \<and> normalizeLocal v \<noteq> []
       \<and> normalizeLocal local \<notin> set (split CHR '','' (normalizeLocal v))"
  then have "filter (\<lambda>lang. lang \<noteq> normalizeLocal local) (split CHR '','' (normalizeLocal v))
             = split CHR '','' (normalizeLocal v)"
    by (auto simp: filter_id_conv)
  with a show w: "awaited (disableLocal h t local)
                  = [ConfigUpdate (Language (Some (normalizeLocal v))) t]"
    by (simp add: awaited_disableLocal orEmpty_def orUndefined_def join_split)
  then show "inspectScopedSettingFromVSConfig
           (language (config (afterwards h (disableLocal h t local)))) (configTargetToScope t)
          = Some (normalizeLocal v)"
    by (rule language_afterwards)
qed

theorem disableLocal_absent_locale_writes_normalized_witness:
  "inspectScopedSettingFromVSConfig (language (config (languageHost ''en,fr'')))
     (configTargetToScope Workspace) = Some ''en,fr''
   \<and> normalizeLocal ''en,fr'' = ''en,fr''
   \<and> normalizeLocal ''de'' \<notin> set (split CHR '','' (normalizeLocal ''en,fr''))
   \<and> inspectScopedSettingFromVSConfig
        (language (config (afterwards (languageHost ''en,fr'')
           (disableLocal (languageHost ''en,fr'') Workspace ''de''))))
        (configTargetToScope Workspace) = Some ''en,fr''"
  using disableLocal_absent_locale_writes_normalized
    [where h = "languageHost ''en,fr''" and t = Workspace and local = "''de''" and v = "''en,fr''"]
  by (simp add: languageHost_stored [simplified])

section \<open>Enabling a locale\<close>

lemma awaited_enableLocal:
  "awaited (enableLocal h t local) =
     [ConfigUpdate (Language (Some (joinedLocales
        (orEmpty (getScopedSettingFromVSConfig (language (config h)) (configTargetToScope t)))
        local))) t]"
  by (simp add: enableLocal_def Let_def joinedLocales_def)

lemma effective_after_enableLocal:
  "getScopedSettingFromVSConfig (language (config (afterwards h (enableLocal h t local))))
     (configTargetToScope t)
   = Some (joinedLocales
        (orEmpty (getScopedSettingFromVSConfig (language (config h)) (configTargetToScope t)))
        local)"
  by (simp add: afterwards_def awaited_enableLocal get_after_update)

lemma set_uniqueFilter: "set (uniqueFilter xs) = set xs"
  by (simp add: uniqueFilter_def uniqueFilterFrom_set)

lemma distinct_uniqueFilter: "distinct (uniqueFilter xs)"
  by (simp add: uniqueFilter_def uniqueFilterFrom_distinct)

lemma joinedLocales_idempotent:
  "joinedLocales (joinedLocales c s) s = joinedLocales c s"
proof -
  define es where "es = uniqueFilter (map trim (split CHR '','' c @ split CHR '','' s))"
  have set_es: "set es = trim ` (set (split CHR '','' c) \<union> set (split CHR '','' s))"
    by (simp add: es_def set_uniqueFilter image_Un)
  have ne: "es \<noteq> []"
    unfolding es_def by (rule uniqueFilter_not_Nil) (simp add: split_not_Nil)
  have nocomma: "\<forall>x\<in>set es. CHR '','' \<notin> set x"
  proof
    fix x assume "x \<in> set es"
    then obtain y where y: "x = trim y" "y \<in> set (split CHR '','' c) \<union> set (split CHR '','' s)"
      by (auto simp: set_es)
    then have "CHR '','' \<notin> set y" by (auto dest: split_no_sep)
    with y(1) show "CHR '','' \<notin> set x" using set_trim [of y] by auto
  qed
  have tr: "map trim es = es"
  proof (rule map_idI)
    fix x assume "x \<in> set es"
    then obtain y where "x = trim y" by (auto simp: set_es)
    then show "trim x = x" by (simp add: trim_trim)
  qed
  have sub: "set (map trim (split CHR '','' s)) \<subseteq> set es"
    by (auto simp: set_es)
  have d: "distinct es" by (simp add: es_def distinct_uniqueFilter)
  have j: "joinedLocales c s = join CHR '','' es"
    by (simp add: joinedLocales_def es_def)
  have "split CHR '','' (join CHR '','' es) = es"
    using ne nocomma by (rule split_join)
  then have "joinedLocales (join CHR '','' es) s
             = join CHR '','' (uniqueFilter (es @ map trim (split CHR '','' s)))"
    by (simp add: joinedLocales_def tr)
  also have "uniqueFilter (es @ map trim (split CHR '','' s)) = es"
    using d sub by (rule uniqueFilter_absorb)
  finally show ?thesis by (simp add: j)
qed

lemma joinedLocales_en: "joinedLocales ''en'' ''en'' = ''en''"
  by (simp add: joinedLocales_def uniqueFilter_def trim_def isWhiteSpace_def)

text \<open>
  For every host, target and locale string, a second call of \<open>enableLocal\<close>, made once the
  write of the first is in the store, writes the same \<open>language\<close> value as the first; a
  write is requested each time, and the effective value read back after the second call
  is the one read back after the first.
\<close>

lemma enableLocal_idempotent:
  "awaited (enableLocal (afterwards h (enableLocal h t s)) t s) = awaited (enableLocal h t s)
   \<and> awaited (enableLocal (afterwards h (enableLocal h t s)) t s) \<noteq> []
   \<and> getScopedSettingFromVSConfig
        (language (config (afterwards (afterwards h (enableLocal h t s))
                             (enableLocal (afterwards h (enableLocal h t s)) t s))))
        (configTargetToScope t)
      = getScopedSettingFromVSConfig
          (language (config (afterwards h (enableLocal h t s)))) (configTargetToScope t)"
  by (simp add: awaited_enableLocal effective_after_enableLocal orEmpty_def
      joinedLocales_idempotent)

text \<open>Where \<^verbatim>\<open>en\<close> is the effective value, enabling \<^verbatim>\<open>en\<close> twice reads back \<^verbatim>\<open>en\<close>.\<close>

lemma enableLocal_twice_on_enabled_locale:
  assumes "getScopedSettingFromVSConfig (language (config h)) (configTargetToScope t)
           = Some ''en''"
  shows "awaited (enableLocal h t ''en'') = [ConfigUpdate (Language (Some ''en'')) t]
       \<and> getScopedSettingFromVSConfig
            (language (config (afterwards (afterwards h (enableLocal h t ''en''))
                                 (enableLocal (afterwards h (enableLocal h t ''en'')) t ''en''))))
            (configTargetToScope t)
          = Some ''en''"
  using assms
  by (simp add: awaited_enableLocal effective_after_enableLocal orEmpty_def joinedLocales_en)

lemma languageHost_effective:
  "getScopedSettingFromVSConfig (language (config (languageHost v))) (ScopeWorkspace, None)
   = Some v"
  by (simp add: languageHost_def getScopedSettingFromVSConfig_def
      inspectSettingFromVSConfig_def emptySlots_def)

text \<open>
  C3, on the code. Where no scope holds a \<open>language\<close>, \<open>enableLocal\<close> of \<^verbatim>\<open>en\<close> for the
  global target writes \<^verbatim>\<open>,en\<close>; the second call, made with that write in the store,
  writes \<^verbatim>\<open>,en\<close> again, and the effective value read back after it is \<^verbatim>\<open>,en\<close>, not
  \<^verbatim>\<open>en\<close>. The two writes are equal, and the value read back is the one with the empty
  entry.
\<close>

theorem enableLocal_twice_from_unset_reads_back_empty_entry:
  "getScopedSettingFromVSConfig (language (config bareHost)) (configTargetToScope Global) = None
   \<and> awaited (enableLocal bareHost Global ''en'')
       = [ConfigUpdate (Language (Some '',en'')) Global]
   \<and> awaited (enableLocal (afterwards bareHost (enableLocal bareHost Global ''en'')) Global ''en'')
       = [ConfigUpdate (Language (Some '',en'')) Global]
   \<and> getScopedSettingFromVSConfig
        (language (config
           (afterwards (afterwards bareHost (enableLocal bareHost Global ''en''))
              (enableLocal (afterwards bareHost (enableLocal bareHost Global ''en''))
                 Global ''en''))))
        (configTargetToScope Global)
      = Some '',en''"
proof -
  have unset: "getScopedSettingFromVSConfig (language (config bareHost)) (ScopeUser, None) = None"
    by (simp add: getScopedSettingFromVSConfig_def inspectSettingFromVSConfig_def bareHost_def
        emptyConfig_def emptySlots_def)
  have j1: "joinedLocales [] ''en'' = '',en''"
    by (simp add: joinedLocales_def uniqueFilter_def trim_def isWhiteSpace_def)
  have j2: "joinedLocales '',en'' ''en'' = '',en''"
    by (simp add: joinedLocales_def uniqueFilter_def trim_def isWhiteSpace_def)
  have e: "getScopedSettingFromVSConfig
             (language (config (afterwards bareHost (enableLocal bareHost Global ''en''))))
             (ScopeUser, None) = Some '',en''"
    using effective_after_enableLocal [of bareHost Global "''en''"]
    by (simp add: unset orEmpty_def j1)
  have e2: "getScopedSettingFromVSConfig
        (language (config
           (afterwards (afterwards bareHost (enableLocal bareHost Global ''en''))
              (enableLocal (afterwards bareHost (enableLocal bareHost Global ''en''))
                 Global ''en''))))
        (ScopeUser, None) = Some '',en''"
    using effective_after_enableLocal
      [of "afterwards bareHost (enableLocal bareHost Global ''en'')" Global "''en''"]
    by (simp add: e orEmpty_def j2)
  show ?thesis
    by (simp add: awaited_enableLocal unset e e2 orEmpty_def j1 j2)
qed

text \<open>
  C1, on the code. Where no scope holds a \<open>language\<close>, the effective value is
  \<^verbatim>\<open>undefined\<close>, and \<open>enableLocal\<close> of \<^verbatim>\<open>en\<close> writes \<^verbatim>\<open>,en\<close>: the list written has an
  empty first entry. Where the effective value is \<^verbatim>\<open>en\<close>, \<open>enableLocal\<close> of \<^verbatim>\<open>EN\<close>
  writes \<^verbatim>\<open>en,EN\<close>: the entries are compared and written as given, with no
  normalization of case.
\<close>

theorem enableLocal_unset_language_writes_empty_entry:
  "getScopedSettingFromVSConfig (language (config bareHost)) (configTargetToScope Global) = None
   \<and> awaited (enableLocal bareHost Global ''en'')
       = [ConfigUpdate (Language (Some '',en'')) Global]
   \<and> split CHR '','' '',en'' = ['''', ''en'']
   \<and> awaited (enableLocal (languageHost ''en'') Workspace ''EN'')
       = [ConfigUpdate (Language (Some ''en,EN'')) Workspace]"
proof -
  have unset: "getScopedSettingFromVSConfig (language (config bareHost)) (ScopeUser, None) = None"
    by (simp add: getScopedSettingFromVSConfig_def inspectSettingFromVSConfig_def bareHost_def
        emptyConfig_def emptySlots_def)
  show ?thesis
    by (simp add: awaited_enableLocal joinedLocales_def uniqueFilter_def trim_def
        isWhiteSpace_def orEmpty_def languageHost_effective unset)
qed

end
